theory Spec2Isabelle
  imports Main "HOL-Library.AList"
begin

section \<open>Python values carried by token payloads\<close>

text \<open>
  A token payload is a Python dict decoded from JSON. The claims the code reads are
  strings, booleans, integers or absent, so a claim value is one of the JSON scalars
  (floating point numbers, arrays and nested objects are left out). A dict is a map
  from keys to values; \<open>d.get(k)\<close> yields \<open>None\<close> (here \<open>JNull\<close>) for a missing key.
\<close>

datatype jv = JNull | JBool bool | JInt int | JStr string

type_synonym dict = "string \<rightharpoonup> jv"

text \<open>Python truthiness: \<open>bool(v)\<close>, and \<open>not v\<close>.\<close>

fun truthy :: "jv \<Rightarrow> bool" where
  "truthy JNull = False"
| "truthy (JBool b) = b"
| "truthy (JInt n) = (n \<noteq> 0)"
| "truthy (JStr s) = (s \<noteq> [])"

fun py_not :: "jv \<Rightarrow> bool" where
  "py_not v = (if truthy v then False else True)"

text \<open>Python \<open>==\<close> on these values: a bool compares as the integer 0 or 1.\<close>

fun py_eq :: "jv \<Rightarrow> jv \<Rightarrow> bool" where
  "py_eq JNull JNull = True"
| "py_eq (JBool a) (JBool b) = (a = b)"
| "py_eq (JBool a) (JInt n) = ((if a then 1 else 0) = n)"
| "py_eq (JInt n) (JBool b) = (n = (if b then 1 else 0))"
| "py_eq (JInt m) (JInt n) = (m = n)"
| "py_eq (JStr s) (JStr t) = (s = t)"
| "py_eq _ _ = False"

definition dict_get :: "dict \<Rightarrow> string \<Rightarrow> jv" where
  "dict_get d k = (case d k of None \<Rightarrow> JNull | Some v \<Rightarrow> v)"

definition dict_get_default :: "dict \<Rightarrow> string \<Rightarrow> jv \<Rightarrow> jv" where
  "dict_get_default d k dflt = (case d k of None \<Rightarrow> dflt | Some v \<Rightarrow> v)"

text \<open>\<open>str(v)\<close>, as an f-string formats a value.\<close>

definition digit_char :: "nat \<Rightarrow> char" where
  "digit_char n = ''0123456789'' ! (n mod 10)"

fun nat_str :: "nat \<Rightarrow> string" where
  "nat_str n = (if n < 10 then [digit_char n] else nat_str (n div 10) @ [digit_char n])"

declare nat_str.simps [simp del]

definition int_str :: "int \<Rightarrow> string" where
  "int_str i = (if i < 0 then CHR ''-'' # nat_str (nat (- i)) else nat_str (nat i))"

fun py_str :: "jv \<Rightarrow> string" where
  "py_str JNull = ''None''"
| "py_str (JBool b) = (if b then ''True'' else ''False'')"
| "py_str (JInt n) = int_str n"
| "py_str (JStr s) = s"

text \<open>\<open>s.startswith(p)\<close>.\<close>

fun startswith :: "string \<Rightarrow> string \<Rightarrow> bool" where
  "startswith s [] = True"
| "startswith [] (p # ps) = False"
| "startswith (c # s) (p # ps) = (c = p \<and> startswith s ps)"

section \<open>Time\<close>

text \<open>
  A clock reading is the number of microseconds since the epoch, the resolution of
  Python's \<open>datetime\<close>. The \<open>exp\<close> claim of a token is in whole seconds.
  \<open>int(delta.total_seconds())\<close> truncates a difference of two datetimes towards zero;
  \<open>total_seconds\<close> is a floating point number, exact to the microsecond for differences
  below \<open>2^33\<close> seconds, and its rounding beyond that is left out.
\<close>

type_synonym time = int

definition usec :: int where
  "usec = 1000000"

definition total_seconds_int :: "int \<Rightarrow> int" where
  "total_seconds_int d = (if 0 \<le> d then d div usec else - ((- d) div usec))"

section \<open>The token library\<close>

text \<open>
  Modelled from the spec: the signing library behind \<open>jwt.encode\<close> and \<open>jwt.decode\<close>
  (the Claims Codec of section 4.1) is not part of the repository. A token string is
  either not a well-formed signed token, or a payload signed under some key. Decoding
  checks, in this order, well-formedness, the signature against the secret, and the
  expiry: a token is expired from the instant \<open>exp\<close> on (the boundary is exclusive).
  A token without \<open>exp\<close> does not expire. Encoding writes \<open>exp\<close> in whole seconds.
\<close>

datatype token = Malformed string | Signed string dict

datatype jwt_error = DecodeError | InvalidSignatureError | ExpiredSignatureError

definition jwt_encode :: "dict \<Rightarrow> string \<Rightarrow> token" where
  "jwt_encode payload key = Signed key payload"

definition jwt_decode :: "token \<Rightarrow> string \<Rightarrow> time \<Rightarrow> jwt_error + dict" where
  "jwt_decode tok key now =
     (case tok of
        Malformed s \<Rightarrow> Inl DecodeError
      | Signed k payload \<Rightarrow>
          if k \<noteq> key then Inl InvalidSignatureError
          else (case payload ''exp'' of
                  None \<Rightarrow> Inr payload
                | Some (JInt e) \<Rightarrow>
                    if e * usec \<le> now then Inl ExpiredSignatureError else Inr payload
                | Some _ \<Rightarrow> Inl DecodeError))"

section \<open>Exceptions\<close>

text \<open>
  Every exception the code raises or lets through is a value: \<open>HTTPException\<close> with its
  status code and detail, Python's \<open>KeyError\<close>, \<open>TypeError\<close> and \<open>ValueError\<close>, the store client's
  \<open>ConnectionError\<close>, \<open>ResponseError\<close> and \<open>DataError\<close>, and \<open>InvalidId\<close> of the object
  identifier constructor.
\<close>

datatype exn =
    HTTPException nat string
  | KeyError string
  | TypeError
  | ValueError
  | ConnectionError
  | ResponseError
  | DataError
  | InvalidId

section \<open>Local datetimes\<close>

text \<open>
  \<open>datetime.now()\<close> and \<open>datetime.fromtimestamp(s)\<close> are naive datetimes in the local
  time of the process. The zone gives, for an epoch second, the offset of local time
  from UTC in seconds; a naive datetime is kept as the microseconds of its wall-clock
  time. \<open>fromtimestamp\<close> takes a number (a bool counts as 0 or 1) and raises
  \<open>TypeError\<close> on anything else. It raises \<open>ValueError\<close> when the local time of the
  timestamp, or of the instant a day before it (which the conversion probes), is
  outside the years 1 to 9999; timestamps beyond what the platform converts raise
  \<open>OverflowError\<close> or \<open>OSError\<close> instead, kept as \<open>ValueError\<close> as well.
  \<open>datetime.now()\<close> converts the clock reading the same way.
\<close>

type_synonym zone = "int \<Rightarrow> int"

definition utc :: zone where
  "utc s = 0"

definition in_years :: "zone \<Rightarrow> int \<Rightarrow> bool" where
  "in_years tz s = (- 62135596800 \<le> s + tz s \<and> s + tz s < 253402300800)"

definition local_of_timestamp :: "zone \<Rightarrow> int \<Rightarrow> exn + int" where
  "local_of_timestamp tz s =
     (if in_years tz s \<and> in_years tz (s - 86400) then Inr ((s + tz s) * usec)
      else Inl ValueError)"

definition datetime_fromtimestamp :: "zone \<Rightarrow> jv \<Rightarrow> exn + int" where
  "datetime_fromtimestamp tz v =
     (case v of
        JInt s \<Rightarrow> local_of_timestamp tz s
      | JBool b \<Rightarrow> local_of_timestamp tz (if b then 1 else 0)
      | _ \<Rightarrow> Inl TypeError)"

definition datetime_now :: "zone \<Rightarrow> time \<Rightarrow> exn + int" where
  "datetime_now tz now =
     (case local_of_timestamp tz (now div usec) of
        Inl err \<Rightarrow> Inl err
      | Inr l \<Rightarrow> Inr (l + now mod usec))"

section \<open>Decoding: \<open>decode_access_token\<close> and \<open>decode_refresh_token\<close>\<close>

definition decode_access_token :: "string \<Rightarrow> token \<Rightarrow> time \<Rightarrow> exn + dict" where
  "decode_access_token secret tok now =
     (case jwt_decode tok secret now of
        Inl ExpiredSignatureError \<Rightarrow> Inl (HTTPException 401 ''Signature has expired'')
      | Inl _ \<Rightarrow> Inl (HTTPException 401 ''Invalid token'')
      | Inr payload \<Rightarrow>
          if payload ''sub'' = None then Inl (HTTPException 401 ''Invalid token'')
          else (case payload ''refresh'' of
                  None \<Rightarrow> Inl (KeyError ''refresh'')
                | Some r \<Rightarrow>
                    if py_eq r (JBool True) then Inl (HTTPException 401 ''Invalid token'')
                    else Inr payload))"

definition decode_refresh_token :: "string \<Rightarrow> token \<Rightarrow> time \<Rightarrow> exn + dict" where
  "decode_refresh_token secret tok now =
     (case jwt_decode tok secret now of
        Inl ExpiredSignatureError \<Rightarrow> Inl (HTTPException 401 ''Signature has expired'')
      | Inl _ \<Rightarrow> Inl (HTTPException 401 ''Invalid token'')
      | Inr payload \<Rightarrow>
          if payload ''sub'' = None then Inl (HTTPException 401 ''Invalid token'')
          else (case payload ''refresh'' of
                  None \<Rightarrow> Inl (KeyError ''refresh'')
                | Some r \<Rightarrow>
                    if py_eq r (JBool False) then Inl (HTTPException 401 ''Invalid token'')
                    else Inr payload))"

section \<open>The revocation store\<close>

text \<open>
  Modelled from the spec: the Revocation Store adapter of section 6 (an expiring
  key-value store reached through \<open>get\<close>, \<open>setex\<close>, \<open>scan_iter\<close> and \<open>delete\<close>) is an
  external service. The store holds, per key, a value and the instant at which the
  entry lapses; an entry written with a TTL of \<open>T\<close> seconds is absent once \<open>T\<close> seconds
  have elapsed. An unreachable store makes every operation raise \<open>ConnectionError\<close>;
  \<open>setex\<close> refuses a TTL that is not positive with \<open>ResponseError\<close>. A key is sent as a
  string or an integer; the client refuses other key values with \<open>DataError\<close>.
\<close>

record redis =
  available :: bool
  entries :: "(string \<times> string \<times> time) list"

definition live_value :: "redis \<Rightarrow> time \<Rightarrow> string \<Rightarrow> string option" where
  "live_value r now key =
     (case map_of (entries r) key of
        None \<Rightarrow> None
      | Some (v, e) \<Rightarrow> if now < e then Some v else None)"

definition redis_get :: "redis \<Rightarrow> time \<Rightarrow> string \<Rightarrow> exn + string option" where
  "redis_get r now key =
     (if available r then Inr (live_value r now key) else Inl ConnectionError)"

definition redis_setex :: "redis \<Rightarrow> time \<Rightarrow> string \<Rightarrow> int \<Rightarrow> string \<Rightarrow> exn + redis" where
  "redis_setex r now key ttl v =
     (if available r then
        (if ttl \<le> 0 then Inl ResponseError
         else Inr (r\<lparr>entries := AList.update key (v, now + ttl * usec) (entries r)\<rparr>))
      else Inl ConnectionError)"

definition redis_delete :: "redis \<Rightarrow> string \<Rightarrow> exn + redis" where
  "redis_delete r key =
     (if available r then Inr (r\<lparr>entries := AList.delete key (entries r)\<rparr>)
      else Inl ConnectionError)"

definition redis_scan_iter :: "redis \<Rightarrow> time \<Rightarrow> string \<Rightarrow> exn + string list" where
  "redis_scan_iter r now pre =
     (if available r then
        Inr (filter (\<lambda>k. startswith k pre \<and> live_value r now k \<noteq> None) (map fst (entries r)))
      else Inl ConnectionError)"

definition redis_key :: "jv \<Rightarrow> exn + string" where
  "redis_key v =
     (case v of JStr s \<Rightarrow> Inr s | JInt n \<Rightarrow> Inr (int_str n) | _ \<Rightarrow> Inl DataError)"

section \<open>Issuing tokens: \<open>encode_token\<close> and \<open>encode_login_token\<close>\<close>

text \<open>
  \<open>uuid4().hex\<close> is an input of the model: the caller supplies the identifier the
  token gets. The clock reading \<open>now\<close> is an input as well.
\<close>

definition encode_token :: "string \<Rightarrow> dict \<Rightarrow> string \<Rightarrow> string \<Rightarrow> time \<Rightarrow> token" where
  "encode_token secret user_data type uuid now =
     (let payload = [''id'' \<mapsto> JStr uuid,
                     ''admin'' \<mapsto> dict_get_default user_data ''admin'' (JBool False),
                     ''is_active'' \<mapsto> dict_get_default user_data ''is_active'' (JBool False),
                     ''sub'' \<mapsto> dict_get user_data ''id'',
                     ''name'' \<mapsto> dict_get user_data ''name'']
      in if type = ''access_token''
         then jwt_encode (payload(''exp'' \<mapsto> JInt (now div usec + 60 * 60),
                                  ''refresh'' \<mapsto> JBool False)) secret
         else jwt_encode (payload(''exp'' \<mapsto> JInt (now div usec + 720 * 3600),
                                  ''refresh'' \<mapsto> JBool True)) secret)"

text \<open>The body of the cleanup loop of \<open>encode_login_token\<close>, over the scanned keys.\<close>

fun sweep :: "redis \<Rightarrow> time \<Rightarrow> string \<Rightarrow> string list \<Rightarrow> exn + redis" where
  "sweep r now p [] = Inr r"
| "sweep r now p (key # keys) =
     (case redis_get r now key of
        Inl e \<Rightarrow> Inl e
      | Inr None \<Rightarrow> sweep r now p keys
      | Inr (Some v) \<Rightarrow>
          if v \<noteq> [] \<and> startswith v p then
            (case redis_delete r key of
               Inl e \<Rightarrow> Inl e
             | Inr r' \<Rightarrow> sweep r' now p keys)
          else sweep r now p keys)"

definition encode_login_token ::
  "string \<Rightarrow> redis \<Rightarrow> dict \<Rightarrow> string \<times> string \<Rightarrow> time \<Rightarrow> exn + ((token \<times> token) \<times> redis)" where
  "encode_login_token secret redis_db user_data uuids now =
     (case redis_scan_iter redis_db now ''token:'' of
        Inl e \<Rightarrow> Inl e
      | Inr keys \<Rightarrow>
          (case sweep redis_db now (py_str (dict_get user_data ''id'') @ '':'') keys of
             Inl e \<Rightarrow> Inl e
           | Inr r' \<Rightarrow>
               Inr ((encode_token secret user_data ''access_token'' (fst uuids) now,
                     encode_token secret user_data ''refresh_token'' (snd uuids) now), r')))"

section \<open>Revoking and checking: \<open>lock_refresh_token\<close>, \<open>verify_refresh_token\<close>, \<open>auth_user\<close>\<close>

text \<open>
  \<open>lock_refresh_token\<close> reads the clock once more after decoding; the model uses one
  reading for both. The TTL is the difference of two naive local datetimes, the one of
  \<open>exp\<close> and the one of now: where the zone's offset differs between the two instants,
  it is not the remaining lifetime.
\<close>

definition lock_refresh_token ::
  "string \<Rightarrow> zone \<Rightarrow> redis \<Rightarrow> token \<Rightarrow> time \<Rightarrow> exn + (jv \<times> redis)" where
  "lock_refresh_token secret tz redis_db tok now =
     (case decode_refresh_token secret tok now of
        Inl e \<Rightarrow> Inl e
      | Inr payload \<Rightarrow>
          (let token_id = dict_get payload ''id'';
               user_id = dict_get payload ''sub'';
               expiration = dict_get payload ''exp'';
               is_active = dict_get payload ''is_active''
           in if py_not user_id \<or> py_not token_id \<or> py_not expiration \<or> py_not is_active
              then Inl (HTTPException 401 ''Invalid token'')
              else (case datetime_fromtimestamp tz expiration of
                      Inl err \<Rightarrow> Inl err
                    | Inr local_exp \<Rightarrow>
                        (case datetime_now tz now of
                           Inl err \<Rightarrow> Inl err
                         | Inr local_now \<Rightarrow>
                             (let ttl = total_seconds_int (local_exp - local_now)
                              in case redis_setex redis_db now (''token:'' @ py_str token_id) ttl
                                        (py_str user_id @ '':'' @ py_str is_active) of
                                   Inl err \<Rightarrow> Inl err
                                 | Inr r' \<Rightarrow> Inr (user_id, r'))))))"

definition verify_refresh_token :: "string \<Rightarrow> redis \<Rightarrow> token \<Rightarrow> time \<Rightarrow> exn + unit" where
  "verify_refresh_token secret redis_db tok now =
     (case decode_refresh_token secret tok now of
        Inl e \<Rightarrow> Inl e
      | Inr payload \<Rightarrow>
          (let token_id = dict_get payload ''id''
           in if py_not token_id then Inl (HTTPException 401 ''Invalid token'')
              else (case redis_get redis_db now (''token:'' @ py_str token_id) of
                      Inl e \<Rightarrow> Inl e
                    | Inr None \<Rightarrow> Inr ()
                    | Inr (Some locked) \<Rightarrow>
                        if locked \<noteq> [] then Inl (HTTPException 401 ''Token locked'')
                        else Inr ())))"

text \<open>
  A cookie is missing when the request has none or its value is the empty string.
  The bearer credentials are extracted by the framework before \<open>auth_user\<close> runs.
\<close>

definition cookie_missing :: "token option \<Rightarrow> bool" where
  "cookie_missing c = (case c of None \<Rightarrow> True | Some t \<Rightarrow> t = Malformed [])"

definition auth_user :: "string \<Rightarrow> redis \<Rightarrow> token option \<Rightarrow> token \<Rightarrow> time \<Rightarrow> exn + dict" where
  "auth_user secret redis_db cookie credentials now =
     (case cookie of
        None \<Rightarrow> Inl (HTTPException 401 ''Token not found'')
      | Some tok \<Rightarrow>
          if tok = Malformed [] then Inl (HTTPException 401 ''Token not found'')
          else (case verify_refresh_token secret redis_db tok now of
                  Inl e \<Rightarrow> Inl e
                | Inr u \<Rightarrow> decode_access_token secret credentials now))"

section \<open>The routes: \<open>refresh_login_user\<close> and \<open>logout_user\<close>\<close>

text \<open>
  An object identifier is built from a string of 24 hexadecimal digits, in either
  case, and is kept as its lower-case digits, which is also what \<open>str\<close> gives for it.
  The user directory maps an object identifier to a user document; \<open>find_one\<close> with
  \<open>is_active: True\<close> finds active users only. A route answers
  with a JSON response, or, when its body raises any exception \<open>e\<close>, with the
  status 500 and the detail \<open>Internal server error: str(e)\<close>, kept here as
  \<open>InternalServerError e\<close>.
\<close>

record user =
  user_name :: string
  user_admin :: bool
  user_is_active :: bool

type_synonym users = "string \<rightharpoonup> user"

datatype content = Detail string | TokenBody token

datatype response = JSONResponse nat content | InternalServerError exn

definition is_hex :: "char \<Rightarrow> bool" where
  "is_hex c = (c \<in> set ''0123456789abcdefABCDEF'')"

definition hex_lower :: "char \<Rightarrow> char" where
  "hex_lower c =
     (if c = CHR ''A'' then CHR ''a'' else if c = CHR ''B'' then CHR ''b''
      else if c = CHR ''C'' then CHR ''c'' else if c = CHR ''D'' then CHR ''d''
      else if c = CHR ''E'' then CHR ''e'' else if c = CHR ''F'' then CHR ''f'' else c)"

definition ObjectId :: "jv \<Rightarrow> exn + string" where
  "ObjectId v =
     (case v of
        JStr s \<Rightarrow>
          if length s = 24 \<and> list_all is_hex s then Inr (map hex_lower s) else Inl InvalidId
      | _ \<Rightarrow> Inl TypeError)"

definition find_one_active :: "users \<Rightarrow> string \<Rightarrow> user option" where
  "find_one_active db oid =
     (case db oid of
        None \<Rightarrow> None
      | Some u \<Rightarrow> if user_is_active u then Some u else None)"

definition user_payload :: "string \<Rightarrow> user \<Rightarrow> dict" where
  "user_payload oid u =
     [''name'' \<mapsto> JStr (user_name u), ''id'' \<mapsto> JStr oid,
      ''admin'' \<mapsto> JBool (user_admin u), ''is_active'' \<mapsto> JBool (user_is_active u)]"

definition refresh_login_user_body ::
  "string \<Rightarrow> users \<Rightarrow> redis \<Rightarrow> token option \<Rightarrow> string \<Rightarrow> time \<Rightarrow> exn + response" where
  "refresh_login_user_body secret db redis_db cookie uuid now =
     (case cookie of
        None \<Rightarrow> Inr (JSONResponse 403 (Detail ''Unauthorized''))
      | Some refresh_token \<Rightarrow>
          if refresh_token = Malformed [] then Inr (JSONResponse 403 (Detail ''Unauthorized''))
          else (case decode_refresh_token secret refresh_token now of
                  Inl e \<Rightarrow> Inl e
                | Inr payload \<Rightarrow>
                    (let user_id = dict_get payload ''sub'';
                         token_id = dict_get payload ''id''
                     in if py_not user_id \<or> py_not token_id
                        then Inr (JSONResponse 403 (Detail ''Unauthorized - bad request''))
                        else (case redis_key token_id of
                                Inl e \<Rightarrow> Inl e
                              | Inr key \<Rightarrow>
                                  (case redis_get redis_db now key of
                                     Inl e \<Rightarrow> Inl e
                                   | Inr (Some (c # cs)) \<Rightarrow>
                                       Inr (JSONResponse 403 (Detail ''Unauthorized - locked list''))
                                   | Inr _ \<Rightarrow>
                                       (case ObjectId user_id of
                                          Inl e \<Rightarrow> Inl e
                                        | Inr oid \<Rightarrow>
                                            (case find_one_active db oid of
                                               None \<Rightarrow>
                                                 Inr (JSONResponse 403
                                                        (Detail ''Unauthorized - invalid user''))
                                             | Some u \<Rightarrow>
                                                 Inr (JSONResponse 200
                                                        (TokenBody (encode_token secret
                                                           (user_payload oid u)
                                                           ''access_token'' uuid now))))))))))"

definition refresh_login_user ::
  "string \<Rightarrow> users \<Rightarrow> redis \<Rightarrow> token option \<Rightarrow> string \<Rightarrow> time \<Rightarrow> response" where
  "refresh_login_user secret db redis_db cookie uuid now =
     (case refresh_login_user_body secret db redis_db cookie uuid now of
        Inl e \<Rightarrow> InternalServerError e
      | Inr resp \<Rightarrow> resp)"

definition logout_user ::
  "string \<Rightarrow> zone \<Rightarrow> users \<Rightarrow> redis \<Rightarrow> token option \<Rightarrow> time \<Rightarrow> response \<times> redis" where
  "logout_user secret tz db redis_db cookie now =
     (case cookie of
        None \<Rightarrow> (JSONResponse 403 (Detail ''User is already logout''), redis_db)
      | Some refresh_token \<Rightarrow>
          if refresh_token = Malformed []
          then (JSONResponse 403 (Detail ''User is already logout''), redis_db)
          else (case lock_refresh_token secret tz redis_db refresh_token now of
                  Inl e \<Rightarrow> (InternalServerError e, redis_db)
                | Inr (user_id, r') \<Rightarrow>
                    (case ObjectId user_id of
                       Inl e \<Rightarrow> (InternalServerError e, r')
                     | Inr oid \<Rightarrow>
                         (case find_one_active db oid of
                            None \<Rightarrow>
                              (JSONResponse 403 (Detail ''Unauthorized - invalid user''), r')
                          | Some u \<Rightarrow>
                              (JSONResponse 200 (Detail ''User logout successfully''), r')))))"

section \<open>A scenario\<close>

text \<open>
  The inputs of the concrete evaluations below: the secret \<open>k\<close>, the active user alice
  and her tokens issued at time 0, an inactive user's session token, the user bob, and
  the stores the scenario passes through. The scenario runs in the zone \<open>utc\<close>.
\<close>

definition alice_id :: string where
  "alice_id = ''a11ce0000000000000000001''"

definition alice_doc :: user where
  "alice_doc = \<lparr>user_name = ''alice'', user_admin = False, user_is_active = True\<rparr>"

definition alice :: dict where
  "alice = user_payload alice_id alice_doc"

definition directory :: users where
  "directory = [alice_id \<mapsto> alice_doc]"

definition AT1 :: token where
  "AT1 = encode_token ''k'' alice ''access_token'' ''ac1'' 0"

definition ST1 :: token where
  "ST1 = encode_token ''k'' alice ''refresh_token'' ''5e5510'' 0"

definition dormant :: dict where
  "dormant = user_payload ''d0d00000000000000000000d''
     \<lparr>user_name = ''dodo'', user_admin = False, user_is_active = False\<rparr>"

definition ST_dormant :: token where
  "ST_dormant = encode_token ''k'' dormant ''refresh_token'' ''5e5540'' 0"

definition empty_store :: redis where
  "empty_store = \<lparr>available = True, entries = []\<rparr>"

definition down_store :: redis where
  "down_store = \<lparr>available = False, entries = []\<rparr>"

definition store_after_logout :: redis where
  "store_after_logout =
     \<lparr>available = True,
      entries = [(''token:5e5510'', ''a11ce0000000000000000001:True'', 2591999500000)]\<rparr>"

definition bob_marker :: "string \<times> string \<times> time" where
  "bob_marker = (''token:b0b510'', ''b0b000000000000000000002:True'', 2591000000000)"

definition two_markers :: redis where
  "two_markers =
     \<lparr>available = True,
      entries = [(''token:5e5510'', ''a11ce0000000000000000001:True'', 2591999500000),
                 bob_marker]\<rparr>"

definition bob_only :: redis where
  "bob_only = \<lparr>available = True, entries = [bob_marker]\<rparr>"

text \<open>
  A zone with a switch from summer time (two hours ahead of UTC) to winter time (one
  hour ahead) on 27 October 2024, 01:00 UTC, and a session token of alice issued on
  1 October 2024, 00:00 UTC, which expires after the switch.
\<close>

definition cet_2024 :: zone where
  "cet_2024 s = (if s < 1729990800 then 7200 else 3600)"

definition ST_october :: token where
  "ST_october = encode_token ''k'' alice ''refresh_token'' ''5e5550'' 1727740800000000"

definition store_after_october_logout :: redis where
  "store_after_october_logout =
     \<lparr>available = True,
      entries = [(''token:5e5550'', ''a11ce0000000000000000001:True'', 1730329200000000)]\<rparr>"

lemmas codec_defs =
  decode_access_token_def decode_refresh_token_def jwt_decode_def jwt_encode_def
  encode_token_def dict_get_def dict_get_default_def usec_def

lemmas datetime_defs =
  datetime_fromtimestamp_def local_of_timestamp_def in_years_def datetime_now_def

lemmas scenario_defs =
  alice_id_def alice_doc_def alice_def directory_def AT1_def ST1_def dormant_def
  ST_dormant_def empty_store_def down_store_def store_after_logout_def bob_marker_def
  two_markers_def bob_only_def user_payload_def ST_october_def
  store_after_october_logout_def

section \<open>Auxiliary facts\<close>

lemma startswith_iff: "startswith s p \<longleftrightarrow> (\<exists>r. s = p @ r)"
  by (induction s p rule: startswith.induct) auto

lemma decode_refresh_token_not_empty:
  "decode_refresh_token secret tok now = Inr payload \<Longrightarrow> tok \<noteq> Malformed []"
  by (auto simp: decode_refresh_token_def jwt_decode_def)

lemma decode_refresh_token_later:
  assumes "decode_refresh_token secret tok now = Inr payload"
    and "payload ''exp'' = Some (JInt e)" and "t < e * usec"
  shows "decode_refresh_token secret tok t = Inr payload"
  using assms
  by (auto simp: decode_refresh_token_def jwt_decode_def
           split: token.splits if_splits option.splits jv.splits sum.splits jwt_error.splits)

lemma datetime_fromtimestamp_JInt:
  "datetime_fromtimestamp tz (JInt e) = Inr l \<Longrightarrow> l = (e + tz e) * usec"
  by (auto simp: datetime_fromtimestamp_def local_of_timestamp_def split: if_splits)

lemma datetime_now_Inr:
  assumes "datetime_now tz now = Inr l"
  shows "l = now + tz (now div usec) * usec"
proof -
  from assms have "l = (now div usec + tz (now div usec)) * usec + now mod usec"
    by (auto simp: datetime_now_def local_of_timestamp_def split: if_splits)
  also have "\<dots> = (now div usec) * usec + now mod usec + tz (now div usec) * usec"
    by (simp add: algebra_simps)
  also have "(now div usec) * usec + now mod usec = now"
    by simp
  finally show ?thesis .
qed

lemma lock_refresh_token_Inr:
  assumes "lock_refresh_token secret tz redis_db tok now = Inr (uid, r')"
  shows "\<exists>payload e local_exp local_now.
            decode_refresh_token secret tok now = Inr payload
          \<and> payload ''exp'' = Some (JInt e)
          \<and> datetime_fromtimestamp tz (JInt e) = Inr local_exp
          \<and> datetime_now tz now = Inr local_now
          \<and> truthy (dict_get payload ''id'') \<and> truthy (dict_get payload ''sub'')
          \<and> truthy (dict_get payload ''is_active'')
          \<and> uid = dict_get payload ''sub''
          \<and> available redis_db
          \<and> 0 < total_seconds_int (local_exp - local_now)
          \<and> r' = redis_db\<lparr>entries :=
                AList.update (''token:'' @ py_str (dict_get payload ''id''))
                  (py_str (dict_get payload ''sub'') @ '':'' @ py_str (dict_get payload ''is_active''),
                   now + total_seconds_int (local_exp - local_now) * usec)
                  (entries redis_db)\<rparr>"
proof (cases "decode_refresh_token secret tok now")
  case (Inl err)
  with assms show ?thesis by (simp add: lock_refresh_token_def)
next
  case (Inr payload)
  note dec = Inr
  let ?key = "''token:'' @ py_str (dict_get payload ''id'')"
  let ?val = "py_str (dict_get payload ''sub'') @ '':'' @ py_str (dict_get payload ''is_active'')"
  have guard: "truthy (dict_get payload ''id'')" "truthy (dict_get payload ''sub'')"
      "truthy (dict_get payload ''exp'')" "truthy (dict_get payload ''is_active'')"
    using assms dec by (simp_all add: lock_refresh_token_def Let_def split: if_splits)
  have "payload ''exp'' = None \<or> (\<exists>e. payload ''exp'' = Some (JInt e))"
    using dec
    by (auto simp: decode_refresh_token_def jwt_decode_def
             split: token.splits if_splits option.splits jv.splits sum.splits jwt_error.splits)
  with guard(3) obtain e where e: "payload ''exp'' = Some (JInt e)"
    by (auto simp: dict_get_def)
  then have dg: "dict_get payload ''exp'' = JInt e" by (simp add: dict_get_def)
  have body: "(case datetime_fromtimestamp tz (JInt e) of
                 Inl err \<Rightarrow> Inl err
               | Inr local_exp \<Rightarrow>
                   (case datetime_now tz now of
                      Inl err \<Rightarrow> Inl err
                    | Inr local_now \<Rightarrow>
                        (let ttl = total_seconds_int (local_exp - local_now)
                         in case redis_setex redis_db now ?key ttl ?val of
                              Inl err \<Rightarrow> Inl err
                            | Inr r'' \<Rightarrow> Inr (dict_get payload ''sub'', r''))))
              = Inr (uid, r')"
    using assms dec guard dg by (simp add: lock_refresh_token_def Let_def)
  from body obtain l where l: "datetime_fromtimestamp tz (JInt e) = Inr l"
    by (cases "datetime_fromtimestamp tz (JInt e)") simp_all
  from body l obtain n where n: "datetime_now tz now = Inr n"
    by (cases "datetime_now tz now") simp_all
  from body l n obtain r'' where
    sx: "redis_setex redis_db now ?key (total_seconds_int (l - n)) ?val = Inr r''"
    by (cases "redis_setex redis_db now ?key (total_seconds_int (l - n)) ?val")
       (simp_all add: Let_def)
  from body l n sx have u: "uid = dict_get payload ''sub''" and rr: "r'' = r'"
    by (simp_all add: Let_def)
  have av: "available redis_db"
    using sx by (simp add: redis_setex_def split: if_splits)
  have pos: "0 < total_seconds_int (l - n)"
    using sx by (simp add: redis_setex_def split: if_splits)
  have r': "r' = redis_db\<lparr>entries :=
                AList.update ?key (?val, now + total_seconds_int (l - n) * usec)
                  (entries redis_db)\<rparr>"
    using sx rr av pos by (simp add: redis_setex_def)
  from dec e l n guard(1,2,4) u av pos r' show ?thesis by blast
qed

text \<open>The scenario: alice logs out with \<open>ST1\<close> half a second after it was issued.\<close>

lemma scenario_logout:
  "lock_refresh_token ''k'' utc empty_store ST1 500000 = Inr (JStr alice_id, store_after_logout)"
  by (simp add: lock_refresh_token_def codec_defs scenario_defs total_seconds_int_def
      redis_setex_def Let_def datetime_defs utc_def)

lemma scenario_ST1_claims:
  "\<exists>payload. decode_refresh_token ''k'' ST1 500000 = Inr payload
     \<and> payload ''exp'' = Some (JInt 2592000)
     \<and> truthy (dict_get payload ''id'') \<and> truthy (dict_get payload ''sub'')
     \<and> truthy (dict_get payload ''is_active'')"
  by (simp add: codec_defs scenario_defs)

text \<open>
  The marker written by that logout lapses at 2591999.5 s, half a second before the
  token does (at 2592000 s): the TTL is the remaining lifetime truncated to whole
  seconds. A check in between finds no marker.
\<close>

lemma marker_lapses_before_token:
  "verify_refresh_token ''k'' store_after_logout ST1 2591999700000 = Inr ()"
  by (simp add: verify_refresh_token_def codec_defs scenario_defs redis_get_def
      live_value_def Let_def)

text \<open>
  In the zone \<open>cet_2024\<close> a logout on 1 October 2024 with a token that expires on
  31 October gets a TTL of 2588400 seconds, an hour less than the 2592000 seconds the
  token has left: the two local datetimes are an hour closer than the two instants.
  The marker lapses an hour before the token, and a check in that hour finds none.
\<close>

lemma dst_switch_shortens_marker:
  "lock_refresh_token ''k'' cet_2024 empty_store ST_october 1727740800000000
     = Inr (JStr alice_id, store_after_october_logout)"
  "verify_refresh_token ''k'' store_after_october_logout ST_october 1730330000000000 = Inr ()"
  by (simp_all add: lock_refresh_token_def verify_refresh_token_def codec_defs scenario_defs
      total_seconds_int_def redis_setex_def redis_get_def live_value_def Let_def datetime_defs
      cet_2024_def)

text \<open>
  A session token whose \<open>exp\<close> is the first second of the year 10000 decodes, and
  logout raises \<open>ValueError\<close> on it without touching the store.
\<close>

lemma year_10000_raises_ValueError:
  "lock_refresh_token ''k'' utc empty_store
     (Signed ''k'' (alice(''sub'' \<mapsto> JStr alice_id, ''exp'' \<mapsto> JInt 253402300800,
                          ''refresh'' \<mapsto> JBool True))) 500000
     = Inl ValueError"
  by (simp add: lock_refresh_token_def codec_defs scenario_defs Let_def datetime_defs utc_def)

text \<open>The cleanup loop on a reachable store: what it deletes and what it keeps.\<close>

lemma sweep_available:
  assumes "available r"
  shows "\<exists>r'. sweep r now p ks = Inr r' \<and> available r'
          \<and> (\<forall>k. map_of (entries r') k =
                (if k \<in> set ks \<and> (\<exists>v. live_value r now k = Some v \<and> v \<noteq> [] \<and> startswith v p)
                 then None else map_of (entries r) k))"
  using assms
proof (induction ks arbitrary: r)
  case Nil
  then show ?case by simp
next
  case (Cons key keys)
  show ?case
  proof (cases "\<exists>v. live_value r now key = Some v \<and> v \<noteq> [] \<and> startswith v p")
    case True
    then obtain v where v: "live_value r now key = Some v" "v \<noteq> []" "startswith v p" by blast
    let ?r1 = "r\<lparr>entries := AList.delete key (entries r)\<rparr>"
    have av1: "available ?r1" using Cons.prems by simp
    from Cons.IH [OF av1] obtain r' where
      r': "sweep ?r1 now p keys = Inr r'" "available r'"
      "\<forall>k. map_of (entries r') k =
          (if k \<in> set keys \<and> (\<exists>v. live_value ?r1 now k = Some v \<and> v \<noteq> [] \<and> startswith v p)
           then None else map_of (entries ?r1) k)"
      by blast
    have step: "sweep r now p (key # keys) = Inr r'"
      using Cons.prems v r'(1) by (simp add: redis_get_def redis_delete_def)
    have lv: "\<And>k. live_value ?r1 now k = (if k = key then None else live_value r now k)"
      by (simp add: live_value_def delete_conv)
    have "\<forall>k. map_of (entries r') k =
        (if k \<in> set (key # keys) \<and> (\<exists>v. live_value r now k = Some v \<and> v \<noteq> [] \<and> startswith v p)
         then None else map_of (entries r) k)"
      using r'(3) v by (auto simp: lv delete_conv)
    with step r'(2) show ?thesis by blast
  next
    case False
    from Cons.IH [OF Cons.prems] obtain r' where
      r': "sweep r now p keys = Inr r'" "available r'"
      "\<forall>k. map_of (entries r') k =
          (if k \<in> set keys \<and> (\<exists>v. live_value r now k = Some v \<and> v \<noteq> [] \<and> startswith v p)
           then None else map_of (entries r) k)"
      by blast
    have step: "sweep r now p (key # keys) = Inr r'"
      using Cons.prems False r'(1)
      by (cases "live_value r now key") (auto simp: redis_get_def)
    have "\<forall>k. map_of (entries r') k =
        (if k \<in> set (key # keys) \<and> (\<exists>v. live_value r now k = Some v \<and> v \<noteq> [] \<and> startswith v p)
         then None else map_of (entries r) k)"
      using r'(3) False by auto
    with step r'(2) show ?thesis by blast
  qed
qed

lemma live_value_in_keys:
  "live_value r now k = Some v \<Longrightarrow> k \<in> set (map fst (entries r))"
  by (auto simp: live_value_def split: option.splits dest: map_of_SomeD intro: rev_image_eqI)

lemma live_value_Some_entry:
  "live_value r now k = Some v \<Longrightarrow> \<exists>x. map_of (entries r) k = Some (v, x)"
  by (auto simp: live_value_def split: option.splits if_splits)

lemma cleanup_effect:
  assumes "available r"
  shows "\<exists>r'. encode_login_token secret r user_data uuids now =
            Inr ((encode_token secret user_data ''access_token'' (fst uuids) now,
                  encode_token secret user_data ''refresh_token'' (snd uuids) now), r')
          \<and> available r'
          \<and> (\<forall>k. map_of (entries r') k =
                (if startswith k ''token:''
                    \<and> (\<exists>rest. live_value r now k = Some (py_str (dict_get user_data ''id'') @ '':'' @ rest))
                 then None else map_of (entries r) k))"
proof -
  let ?p = "py_str (dict_get user_data ''id'') @ '':''"
  let ?ks = "filter (\<lambda>k. startswith k ''token:'' \<and> live_value r now k \<noteq> None) (map fst (entries r))"
  from sweep_available [OF assms, of now ?p ?ks] obtain r' where
    r': "sweep r now ?p ?ks = Inr r'" "available r'"
      "\<forall>k. map_of (entries r') k =
          (if k \<in> set ?ks \<and> (\<exists>v. live_value r now k = Some v \<and> v \<noteq> [] \<and> startswith v ?p)
           then None else map_of (entries r) k)"
    by blast
  have eq: "\<And>k. (k \<in> set ?ks \<and> (\<exists>v. live_value r now k = Some v \<and> v \<noteq> [] \<and> startswith v ?p))
      = (startswith k ''token:''
           \<and> (\<exists>rest. live_value r now k = Some (py_str (dict_get user_data ''id'') @ '':'' @ rest)))"
    using live_value_in_keys [of r now] by (auto simp: startswith_iff)
  have "encode_login_token secret r user_data uuids now =
            Inr ((encode_token secret user_data ''access_token'' (fst uuids) now,
                  encode_token secret user_data ''refresh_token'' (snd uuids) now), r')"
    using assms r'(1) by (simp add: encode_login_token_def redis_scan_iter_def)
  moreover have "\<forall>k. map_of (entries r') k =
                (if startswith k ''token:''
                    \<and> (\<exists>rest. live_value r now k = Some (py_str (dict_get user_data ''id'') @ '':'' @ rest))
                 then None else map_of (entries r) k)"
    using r'(3) unfolding eq .
  ultimately show ?thesis using r'(2) by blast
qed

lemma colon_free_prefix:
  assumes "CHR '':'' \<notin> set u" and "CHR '':'' \<notin> set w" and "u @ '':'' @ a = w @ '':'' @ b"
  shows "u = w"
  using assms
proof (induction u arbitrary: w)
  case Nil
  then show ?case by (cases w) auto
next
  case (Cons c u)
  then show ?case by (cases w) auto
qed

text \<open>An object identifier, 24 hexadecimal digits, holds no colon.\<close>

lemma object_id_colon_free:
  "ObjectId (JStr s) = Inr oid \<Longrightarrow> CHR '':'' \<notin> set s"
proof
  assume a: "ObjectId (JStr s) = Inr oid" and b: "CHR '':'' \<in> set s"
  from a have "list_all is_hex s"
    by (simp add: ObjectId_def split: if_splits)
  with b have "is_hex CHR '':''" by (simp add: list_all_iff)
  then show False by (simp add: is_hex_def)
qed

section \<open>Decoding\<close>

text \<open>
  Claim C7. A validly signed, unexpired token (one the library decodes to its payload)
  whose payload has no \<open>sub\<close> claim is refused by both decoders with the 401
  \<open>Invalid token\<close> outcome; the correct signature does not make it acceptable.
\<close>

theorem missing_subject_is_invalid:
  assumes "jwt_decode tok secret now = Inr payload" and "payload ''sub'' = None"
  shows "decode_access_token secret tok now = Inl (HTTPException 401 ''Invalid token'')
       \<and> decode_refresh_token secret tok now = Inl (HTTPException 401 ''Invalid token'')"
  using assms by (simp add: decode_access_token_def decode_refresh_token_def)

theorem missing_subject_is_invalid_witness:
  "jwt_decode (Signed ''k'' [''refresh'' \<mapsto> JBool False, ''exp'' \<mapsto> JInt 10]) ''k'' 9999999
     = Inr [''refresh'' \<mapsto> JBool False, ''exp'' \<mapsto> JInt 10]
   \<and> decode_access_token ''k''
        (Signed ''k'' [''refresh'' \<mapsto> JBool False, ''exp'' \<mapsto> JInt 10]) 9999999
     = Inl (HTTPException 401 ''Invalid token'')
   \<and> decode_refresh_token ''k''
        (Signed ''k'' [''refresh'' \<mapsto> JBool False, ''exp'' \<mapsto> JInt 10]) 9999999
     = Inl (HTTPException 401 ''Invalid token'')"
proof -
  have d: "jwt_decode (Signed ''k'' [''refresh'' \<mapsto> JBool False, ''exp'' \<mapsto> JInt 10]) ''k'' 9999999
     = Inr [''refresh'' \<mapsto> JBool False, ''exp'' \<mapsto> JInt 10]"
    by (simp add: jwt_decode_def usec_def)
  have s: "[''refresh'' \<mapsto> JBool False, ''exp'' \<mapsto> JInt 10] ''sub'' = None"
    by simp
  from missing_subject_is_invalid [OF d s] d show ?thesis by simp
qed

text \<open>
  Claim C8. A signed token whose \<open>exp\<close> claim is the second \<open>e\<close> is refused as expired
  by both decoders at every instant from \<open>e\<close> on: at exactly \<open>e\<close> as well as strictly
  after it. The comparison is the token library's, modelled above.
\<close>

theorem expired_at_and_after_exp:
  assumes "payload ''exp'' = Some (JInt e)" and "e * usec \<le> now"
  shows "decode_access_token secret (Signed secret payload) now
           = Inl (HTTPException 401 ''Signature has expired'')
       \<and> decode_refresh_token secret (Signed secret payload) now
           = Inl (HTTPException 401 ''Signature has expired'')"
  using assms by (simp add: decode_access_token_def decode_refresh_token_def jwt_decode_def)

theorem expired_at_and_after_exp_witness:
  "(alice(''exp'' \<mapsto> JInt 3600, ''refresh'' \<mapsto> JBool False)) ''exp'' = Some (JInt 3600)
   \<and> 3600 * usec \<le> 3600000000
   \<and> decode_access_token ''k''
        (Signed ''k'' (alice(''exp'' \<mapsto> JInt 3600, ''refresh'' \<mapsto> JBool False))) 3600000000
       = Inl (HTTPException 401 ''Signature has expired'')
   \<and> decode_refresh_token ''k''
        (Signed ''k'' (alice(''exp'' \<mapsto> JInt 3600, ''refresh'' \<mapsto> JBool False))) 3600000000
       = Inl (HTTPException 401 ''Signature has expired'')"
proof -
  have a: "(alice(''exp'' \<mapsto> JInt 3600, ''refresh'' \<mapsto> JBool False)) ''exp'' = Some (JInt 3600)"
    by simp
  have b: "3600 * usec \<le> 3600000000"
    by (simp add: usec_def)
  from expired_at_and_after_exp
         [where payload = "alice(''exp'' \<mapsto> JInt 3600, ''refresh'' \<mapsto> JBool False)"
            and e = 3600 and now = 3600000000 and secret = "''k''", OF a b] a b
  show ?thesis by simp
qed

text \<open>
  An access token issued by \<open>encode_token\<close> at \<open>t0\<close> carries the expiry
  \<open>t0 div usec + 3600\<close>, a session token \<open>t0 div usec + 2592000\<close>.
\<close>

lemma issued_tokens_expire:
  "(t0 div usec + 3600) * usec \<le> now \<Longrightarrow>
     decode_access_token secret (encode_token secret user_data ''access_token'' uuid t0) now
       = Inl (HTTPException 401 ''Signature has expired'')"
  "(t0 div usec + 2592000) * usec \<le> now \<Longrightarrow>
     decode_refresh_token secret (encode_token secret user_data ''refresh_token'' uuid t0) now
       = Inl (HTTPException 401 ''Signature has expired'')"
  by (simp_all add: decode_access_token_def decode_refresh_token_def jwt_decode_def
      encode_token_def jwt_encode_def)

text \<open>
  Claim C4. Both decoders answer a validly signed token that has a \<open>sub\<close> claim and no
  \<open>refresh\<close> claim with Python's \<open>KeyError\<close>: the payload is indexed at \<open>refresh\<close>
  without a check, and neither \<open>except\<close> clause catches the error. The outcome is not
  one of the typed 401 failures.
\<close>

theorem decode_without_refresh_raises_KeyError:
  "decode_access_token ''k'' (Signed ''k'' [''sub'' \<mapsto> JStr alice_id]) 0
     = Inl (KeyError ''refresh'')
   \<and> decode_refresh_token ''k'' (Signed ''k'' [''sub'' \<mapsto> JStr alice_id]) 0
     = Inl (KeyError ''refresh'')"
  by (simp add: decode_access_token_def decode_refresh_token_def jwt_decode_def)

text \<open>
  With a \<open>refresh\<close> claim in the payload, or without a \<open>sub\<close> claim, every outcome of
  the decoders is the payload or one of the two 401 failures.
\<close>

lemma decode_access_token_typed:
  assumes "decode_access_token secret tok now = Inl e"
  shows "e = HTTPException 401 ''Signature has expired'' \<or> e = HTTPException 401 ''Invalid token''
       \<or> e = KeyError ''refresh''"
  using assms
  by (auto simp: decode_access_token_def split: sum.splits jwt_error.splits if_splits option.splits)

lemma decode_refresh_token_typed:
  assumes "decode_refresh_token secret tok now = Inl e"
  shows "e = HTTPException 401 ''Signature has expired'' \<or> e = HTTPException 401 ''Invalid token''
       \<or> e = KeyError ''refresh''"
  using assms
  by (auto simp: decode_refresh_token_def split: sum.splits jwt_error.splits if_splits option.splits)

section \<open>Logout\<close>

text \<open>
  Claim C10. For a session token that decodes (validly signed, unexpired, of the
  session kind) and whose \<open>is_active\<close> claim is falsy or missing, \<open>lock_refresh_token\<close>
  raises the 401 \<open>Invalid token\<close> error before it reaches the store, and the logout
  route answers with status 500 for that error and leaves the store as it was: no
  revocation marker is written.
\<close>

theorem logout_inactive_writes_nothing:
  assumes "decode_refresh_token secret tok now = Inr payload"
    and "\<not> truthy (dict_get payload ''is_active'')"
  shows "lock_refresh_token secret tz redis_db tok now = Inl (HTTPException 401 ''Invalid token'')
       \<and> logout_user secret tz db redis_db (Some tok) now
           = (InternalServerError (HTTPException 401 ''Invalid token''), redis_db)"
  using assms decode_refresh_token_not_empty [OF assms(1)]
  by (simp add: lock_refresh_token_def logout_user_def Let_def)

theorem logout_inactive_writes_nothing_witness:
  "(\<exists>payload. decode_refresh_token ''k'' ST_dormant 500000 = Inr payload
       \<and> \<not> truthy (dict_get payload ''is_active''))
   \<and> lock_refresh_token ''k'' utc empty_store ST_dormant 500000
       = Inl (HTTPException 401 ''Invalid token'')
   \<and> logout_user ''k'' utc directory empty_store (Some ST_dormant) 500000
       = (InternalServerError (HTTPException 401 ''Invalid token''), empty_store)"
proof -
  have ex: "\<exists>payload. decode_refresh_token ''k'' ST_dormant 500000 = Inr payload
       \<and> \<not> truthy (dict_get payload ''is_active'')"
    by (simp add: codec_defs scenario_defs)
  then obtain payload where p: "decode_refresh_token ''k'' ST_dormant 500000 = Inr payload"
    "\<not> truthy (dict_get payload ''is_active'')" by blast
  from logout_inactive_writes_nothing [OF p, of utc empty_store directory] ex
  show ?thesis by simp
qed



text \<open>
  With the same offset at both instants the difference of the local datetimes is the
  remaining lifetime.
\<close>

lemma local_difference_fixed_offset:
  assumes "datetime_fromtimestamp tz (JInt e) = Inr local_exp"
    and "datetime_now tz now = Inr local_now"
    and "tz e = tz (now div usec)"
  shows "local_exp - local_now = e * usec - now"
  using datetime_fromtimestamp_JInt [OF assms(1)] datetime_now_Inr [OF assms(2)] assms(3)
  by (simp add: algebra_simps)


section \<open>Revocation\<close>

lemma scenario_first_login:
  "encode_login_token ''k'' empty_store alice (''ac1'', ''5e5510'') 0 = Inr ((AT1, ST1), empty_store)"
  by (simp add: encode_login_token_def redis_scan_iter_def scenario_defs)

lemma scenario_second_login:
  "encode_login_token ''k'' store_after_logout alice (''ac2'', ''5e5520'') 2000000
     = Inr ((encode_token ''k'' alice ''access_token'' ''ac2'' 2000000,
             encode_token ''k'' alice ''refresh_token'' ''5e5520'' 2000000), empty_store)"
  by (simp add: encode_login_token_def redis_scan_iter_def live_value_def redis_get_def
      redis_delete_def dict_get_def scenario_defs)

text \<open>
  Alice logs out with \<open>ST1\<close> and logs in again. The cleanup of the second login deletes
  the marker of \<open>ST1\<close>, whose value starts with her id, and a later request presenting
  \<open>ST1\<close> (still unexpired) with \<open>AT1\<close> is admitted.
\<close>

theorem login_sweep_readmits_revoked_token:
  "lock_refresh_token ''k'' utc empty_store ST1 500000 = Inr (JStr alice_id, store_after_logout)
   \<and> encode_login_token ''k'' store_after_logout alice (''ac2'', ''5e5520'') 2000000
       = Inr ((encode_token ''k'' alice ''access_token'' ''ac2'' 2000000,
               encode_token ''k'' alice ''refresh_token'' ''5e5520'' 2000000), empty_store)
   \<and> verify_refresh_token ''k'' empty_store ST1 3000000 = Inr ()
   \<and> auth_user ''k'' empty_store (Some ST1) AT1 3000000 = decode_access_token ''k'' AT1 3000000
   \<and> map_sum id (\<lambda>p. dict_get p ''sub'') (auth_user ''k'' empty_store (Some ST1) AT1 3000000)
       = Inr (JStr alice_id)"
proof -
  have v: "verify_refresh_token ''k'' empty_store ST1 3000000 = Inr ()"
    by (simp add: verify_refresh_token_def codec_defs scenario_defs redis_get_def
        live_value_def Let_def)
  have n: "ST1 \<noteq> Malformed []"
    by (simp add: ST1_def encode_token_def jwt_encode_def)
  have a: "auth_user ''k'' empty_store (Some ST1) AT1 3000000 = decode_access_token ''k'' AT1 3000000"
    using v n by (simp add: auth_user_def)
  have d: "map_sum id (\<lambda>p. dict_get p ''sub'') (decode_access_token ''k'' AT1 3000000)
       = Inr (JStr alice_id)"
    by (simp add: codec_defs scenario_defs)
  show ?thesis using scenario_logout scenario_second_login v a d by simp
qed

text \<open>
  A login of another subject keeps the marker: the cleanup deletes a marker only when
  its value starts with the id of the identity logging in (ids without a colon).
\<close>

lemma login_of_other_subject_keeps_marker:
  assumes "available r"
    and "map_of (entries r) k = Some (u @ '':'' @ rest, x)"
    and "CHR '':'' \<notin> set u" and "CHR '':'' \<notin> set (py_str (dict_get user_data ''id''))"
    and "u \<noteq> py_str (dict_get user_data ''id'')"
  shows "\<exists>at rt r'. encode_login_token secret r user_data uuids now = Inr ((at, rt), r')
          \<and> available r' \<and> map_of (entries r') k = map_of (entries r) k"
proof -
  from cleanup_effect [OF assms(1), of secret user_data uuids now] obtain r' where
    enc: "encode_login_token secret r user_data uuids now =
            Inr ((encode_token secret user_data ''access_token'' (fst uuids) now,
                  encode_token secret user_data ''refresh_token'' (snd uuids) now), r')"
    and av: "available r'"
    and fr: "\<forall>k. map_of (entries r') k =
                (if startswith k ''token:''
                    \<and> (\<exists>rest. live_value r now k
                                 = Some (py_str (dict_get user_data ''id'') @ '':'' @ rest))
                 then None else map_of (entries r) k)"
    by blast
  have "\<not> (\<exists>rest'. live_value r now k = Some (py_str (dict_get user_data ''id'') @ '':'' @ rest'))"
  proof
    assume "\<exists>rest'. live_value r now k = Some (py_str (dict_get user_data ''id'') @ '':'' @ rest')"
    then obtain rest' where
      "live_value r now k = Some (py_str (dict_get user_data ''id'') @ '':'' @ rest')" by blast
    from live_value_Some_entry [OF this] assms(2)
    have "u @ '':'' @ rest = py_str (dict_get user_data ''id'') @ '':'' @ rest'" by auto
    from colon_free_prefix [OF assms(3,4) this] assms(5) show False by blast
  qed
  with fr have "map_of (entries r') k = map_of (entries r) k" by simp
  with enc av show ?thesis by blast
qed

text \<open>
  Claim C2, as the code has it. After \<open>lock_refresh_token\<close> succeeds at \<open>now\<close> on a
  session token with expiry \<open>e\<close>, take any reachable store that holds under the
  token's marker key what the store logout left holds there: the cleanup of a login
  of the same subject has not deleted the marker. A check presenting the same token
  against that store at an instant \<open>t\<close> at which the token is unexpired and the marker
  has not lapsed is rejected with 401 \<open>Token locked\<close>, by \<open>verify_refresh_token\<close> and so
  by \<open>auth_user\<close>, whatever the bearer credentials. The marker lapses at \<open>now\<close> plus the
  TTL logout computed: the difference of the local datetimes of \<open>e\<close> and of now (below
  \<open>2^33\<close> seconds), truncated to whole seconds.
\<close>

theorem revoked_while_marker_lives:
  assumes "lock_refresh_token secret tz redis_db tok now = Inr (uid, r')"
    and "decode_refresh_token secret tok now = Inr payload"
    and "payload ''exp'' = Some (JInt e)"
    and "datetime_fromtimestamp tz (JInt e) = Inr local_exp"
    and "datetime_now tz now = Inr local_now"
    and "local_exp - local_now < 8589934592 * usec"
    and "available r''"
    and "map_of (entries r'') (''token:'' @ py_str (dict_get payload ''id''))
           = map_of (entries r') (''token:'' @ py_str (dict_get payload ''id''))"
    and "t < now + total_seconds_int (local_exp - local_now) * usec"
    and "t < e * usec"
  shows "verify_refresh_token secret r'' tok t = Inl (HTTPException 401 ''Token locked'')
       \<and> auth_user secret r'' (Some tok) credentials t = Inl (HTTPException 401 ''Token locked'')"
proof -
  from lock_refresh_token_Inr [OF assms(1)] assms(2-5)
  have id: "truthy (dict_get payload ''id'')"
    and r': "r' = redis_db\<lparr>entries :=
                AList.update (''token:'' @ py_str (dict_get payload ''id''))
                  (py_str (dict_get payload ''sub'') @ '':'' @ py_str (dict_get payload ''is_active''),
                   now + total_seconds_int (local_exp - local_now) * usec)
                  (entries redis_db)\<rparr>"
    by auto
  from decode_refresh_token_later [OF assms(2,3,10)]
  have dec: "decode_refresh_token secret tok t = Inr payload" .
  have "map_of (entries r') (''token:'' @ py_str (dict_get payload ''id''))
      = Some (py_str (dict_get payload ''sub'') @ '':'' @ py_str (dict_get payload ''is_active''),
              now + total_seconds_int (local_exp - local_now) * usec)"
    by (simp add: r' update_conv')
  with assms(8,9)
  have live: "live_value r'' t (''token:'' @ py_str (dict_get payload ''id''))
      = Some (py_str (dict_get payload ''sub'') @ '':'' @ py_str (dict_get payload ''is_active''))"
    by (simp add: live_value_def)
  have v: "verify_refresh_token secret r'' tok t = Inl (HTTPException 401 ''Token locked'')"
    using dec id assms(7) live by (simp add: verify_refresh_token_def Let_def redis_get_def)
  show ?thesis using v decode_refresh_token_not_empty [OF dec] by (simp add: auth_user_def)
qed

theorem revoked_while_marker_lives_witness:
  "lock_refresh_token ''k'' utc empty_store ST1 500000 = Inr (JStr alice_id, store_after_logout)
   \<and> (\<exists>payload. decode_refresh_token ''k'' ST1 500000 = Inr payload
         \<and> payload ''exp'' = Some (JInt 2592000)
         \<and> map_of (entries two_markers) (''token:'' @ py_str (dict_get payload ''id''))
             = map_of (entries store_after_logout) (''token:'' @ py_str (dict_get payload ''id'')))
   \<and> datetime_fromtimestamp utc (JInt 2592000) = Inr 2592000000000
   \<and> datetime_now utc 500000 = Inr 500000
   \<and> (2592000000000::int) - 500000 < 8589934592 * usec
   \<and> available two_markers
   \<and> 2591999499999 < 500000 + total_seconds_int (2592000000000 - 500000) * usec
   \<and> 2591999499999 < 2592000 * usec
   \<and> verify_refresh_token ''k'' two_markers ST1 2591999499999
       = Inl (HTTPException 401 ''Token locked'')
   \<and> auth_user ''k'' two_markers (Some ST1) AT1 2591999499999
       = Inl (HTTPException 401 ''Token locked'')"
proof -
  have "\<exists>payload. decode_refresh_token ''k'' ST1 500000 = Inr payload
         \<and> payload ''exp'' = Some (JInt 2592000)
         \<and> map_of (entries two_markers) (''token:'' @ py_str (dict_get payload ''id''))
             = map_of (entries store_after_logout) (''token:'' @ py_str (dict_get payload ''id''))"
    by (simp add: codec_defs scenario_defs)
  then obtain payload where
    p: "decode_refresh_token ''k'' ST1 500000 = Inr payload" "payload ''exp'' = Some (JInt 2592000)"
    and m: "map_of (entries two_markers) (''token:'' @ py_str (dict_get payload ''id''))
             = map_of (entries store_after_logout) (''token:'' @ py_str (dict_get payload ''id''))"
    by blast
  have f: "datetime_fromtimestamp utc (JInt 2592000) = Inr 2592000000000"
      "datetime_now utc 500000 = Inr 500000"
      "(2592000000000::int) - 500000 < 8589934592 * usec"
    by (simp_all add: usec_def datetime_defs utc_def)
  have av: "available two_markers" by (simp add: two_markers_def)
  have b: "2591999499999 < 500000 + total_seconds_int (2592000000000 - 500000) * usec"
      "2591999499999 < 2592000 * usec"
    by (simp_all add: total_seconds_int_def usec_def)
  from revoked_while_marker_lives [OF scenario_logout p f av m b, of AT1]
    scenario_logout p m f av b
  show ?thesis by blast
qed

text \<open>
  Claim C1. The refresh route looks the marker up under the bare token id, while
  \<open>lock_refresh_token\<close> writes it (and \<open>verify_refresh_token\<close> reads it) under
  \<open>token:\<close> followed by the id. After alice's logout the guard rejects \<open>ST1\<close> as
  locked, and the refresh route presented with \<open>ST1\<close> answers 200 with a fresh
  access token.
\<close>

theorem refresh_ignores_revocation_marker:
  "lock_refresh_token ''k'' utc empty_store ST1 500000 = Inr (JStr alice_id, store_after_logout)
   \<and> verify_refresh_token ''k'' store_after_logout ST1 1000000
       = Inl (HTTPException 401 ''Token locked'')
   \<and> refresh_login_user ''k'' directory store_after_logout (Some ST1) ''ac2'' 1000000
       = JSONResponse 200 (TokenBody (encode_token ''k'' alice ''access_token'' ''ac2'' 1000000))"
proof -
  have "verify_refresh_token ''k'' store_after_logout ST1 1000000
       = Inl (HTTPException 401 ''Token locked'')"
    by (simp add: verify_refresh_token_def codec_defs scenario_defs redis_get_def
        live_value_def Let_def)
  moreover have "refresh_login_user ''k'' directory store_after_logout (Some ST1) ''ac2'' 1000000
       = JSONResponse 200 (TokenBody (encode_token ''k'' alice ''access_token'' ''ac2'' 1000000))"
    by (simp add: refresh_login_user_def refresh_login_user_body_def codec_defs scenario_defs
        redis_get_def live_value_def Let_def redis_key_def ObjectId_def is_hex_def
        hex_lower_def find_one_active_def)
  ultimately show ?thesis using scenario_logout by simp
qed

section \<open>An unreachable store\<close>

text \<open>With the store unreachable, issuing a token pair fails with the store's error.\<close>

theorem login_fails_when_store_unavailable:
  "encode_login_token ''k'' down_store alice (''ac1'', ''5e5510'') 0 = Inl ConnectionError"
  by (simp add: encode_login_token_def redis_scan_iter_def down_store_def)

text \<open>
  Claim C5, as the code has it. With the store unreachable, the revocation check of a
  session token that decodes and has an id raises the store's \<open>ConnectionError\<close>:
  \<open>verify_refresh_token\<close> and \<open>auth_user\<close> end with that error, so the request is not
  admitted, and it is not turned into a 401. The cleanup of \<open>encode_login_token\<close>
  raises the same error and no token pair is issued.
\<close>

theorem store_failure_propagates:
  assumes "\<not> available redis_db"
    and "decode_refresh_token secret tok now = Inr payload"
    and "truthy (dict_get payload ''id'')"
  shows "verify_refresh_token secret redis_db tok now = Inl ConnectionError
       \<and> auth_user secret redis_db (Some tok) credentials now = Inl ConnectionError
       \<and> encode_login_token secret redis_db user_data uuids now = Inl ConnectionError"
  using assms decode_refresh_token_not_empty [OF assms(2)]
  by (simp add: verify_refresh_token_def auth_user_def encode_login_token_def
      redis_get_def redis_scan_iter_def Let_def)

theorem store_failure_propagates_witness:
  "\<not> available down_store
   \<and> (\<exists>payload. decode_refresh_token ''k'' ST1 500000 = Inr payload
         \<and> truthy (dict_get payload ''id''))
   \<and> verify_refresh_token ''k'' down_store ST1 500000 = Inl ConnectionError
   \<and> auth_user ''k'' down_store (Some ST1) AT1 500000 = Inl ConnectionError
   \<and> encode_login_token ''k'' down_store alice (''ac2'', ''5e5520'') 500000 = Inl ConnectionError"
proof -
  have d: "\<not> available down_store" by (simp add: down_store_def)
  from scenario_ST1_claims obtain payload where
    p: "decode_refresh_token ''k'' ST1 500000 = Inr payload" "truthy (dict_get payload ''id'')"
    by blast
  from store_failure_propagates [OF d p, of AT1 alice "(''ac2'', ''5e5520'')"] d p
  show ?thesis by blast
qed

section \<open>Issuing a token pair\<close>

text \<open>
  Claim C6. When \<open>encode_login_token\<close> issues a pair for \<open>user_data\<close> at \<open>now\<close>, the access
  token decoded before its expiry (60 minutes after the issuing second) yields claims
  whose \<open>sub\<close> is the \<open>id\<close> of \<open>user_data\<close>, and so does the session token decoded before
  its expiry (720 hours after).
\<close>

theorem issued_pair_decodes_to_subject:
  assumes "encode_login_token secret redis_db user_data uuids now = Inr ((at, rt), r')"
    and "t < (now div usec + 3600) * usec"
    and "t' < (now div usec + 2592000) * usec"
  shows "(\<exists>p. decode_access_token secret at t = Inr p \<and> dict_get p ''sub'' = dict_get user_data ''id'')
       \<and> (\<exists>p. decode_refresh_token secret rt t' = Inr p \<and> dict_get p ''sub'' = dict_get user_data ''id'')"
proof -
  from assms(1) have at: "at = encode_token secret user_data ''access_token'' (fst uuids) now"
    and rt: "rt = encode_token secret user_data ''refresh_token'' (snd uuids) now"
    by (auto simp: encode_login_token_def split: sum.splits)
  have a: "\<exists>p. decode_access_token secret at t = Inr p \<and> dict_get p ''sub'' = dict_get user_data ''id''"
    using assms(2)
    by (simp add: at encode_token_def jwt_encode_def decode_access_token_def jwt_decode_def dict_get_def)
  have r: "\<exists>p. decode_refresh_token secret rt t' = Inr p \<and> dict_get p ''sub'' = dict_get user_data ''id''"
    using assms(3)
    by (simp add: rt encode_token_def jwt_encode_def decode_refresh_token_def jwt_decode_def dict_get_def)
  from a r show ?thesis by simp
qed

theorem issued_pair_decodes_to_subject_witness:
  "encode_login_token ''k'' empty_store alice (''ac1'', ''5e5510'') 0 = Inr ((AT1, ST1), empty_store)
   \<and> 3599999999 < (0 div usec + 3600) * usec
   \<and> 2591999999999 < (0 div usec + 2592000) * usec
   \<and> dict_get alice ''id'' = JStr alice_id
   \<and> (\<exists>p. decode_access_token ''k'' AT1 3599999999 = Inr p \<and> dict_get p ''sub'' = JStr alice_id)
   \<and> (\<exists>p. decode_refresh_token ''k'' ST1 2591999999999 = Inr p \<and> dict_get p ''sub'' = JStr alice_id)"
proof -
  have b: "3599999999 < (0 div usec + 3600) * usec" "2591999999999 < (0 div usec + 2592000) * usec"
    by (simp_all add: usec_def)
  have i: "dict_get alice ''id'' = JStr alice_id"
    by (simp add: dict_get_def alice_def user_payload_def)
  from issued_pair_decodes_to_subject [OF scenario_first_login b] scenario_first_login b i
  show ?thesis by simp
qed

text \<open>
  The identifier of a new token is drawn at random and not looked up in the store.
  When the draw for alice's new session token is the id of a session token of bob
  that is revoked, the cleanup keeps bob's marker, and the new session token is
  rejected as locked.
\<close>

theorem id_collision_locks_new_token:
  "encode_login_token ''k'' bob_only alice (''ac2'', ''b0b510'') 2000000
     = Inr ((encode_token ''k'' alice ''access_token'' ''ac2'' 2000000,
             encode_token ''k'' alice ''refresh_token'' ''b0b510'' 2000000), bob_only)
   \<and> verify_refresh_token ''k'' bob_only
         (encode_token ''k'' alice ''refresh_token'' ''b0b510'' 2000000) 2000000
       = Inl (HTTPException 401 ''Token locked'')
   \<and> auth_user ''k'' bob_only
         (Some (encode_token ''k'' alice ''refresh_token'' ''b0b510'' 2000000))
         (encode_token ''k'' alice ''access_token'' ''ac2'' 2000000) 2000000
       = Inl (HTTPException 401 ''Token locked'')"
proof -
  have e: "encode_login_token ''k'' bob_only alice (''ac2'', ''b0b510'') 2000000
     = Inr ((encode_token ''k'' alice ''access_token'' ''ac2'' 2000000,
             encode_token ''k'' alice ''refresh_token'' ''b0b510'' 2000000), bob_only)"
    by (simp add: encode_login_token_def redis_scan_iter_def live_value_def redis_get_def
        redis_delete_def dict_get_def scenario_defs)
  have v: "verify_refresh_token ''k'' bob_only
         (encode_token ''k'' alice ''refresh_token'' ''b0b510'' 2000000) 2000000
       = Inl (HTTPException 401 ''Token locked'')"
    by (simp add: verify_refresh_token_def codec_defs scenario_defs redis_get_def
        live_value_def Let_def)
  have n: "encode_token ''k'' alice ''refresh_token'' ''b0b510'' 2000000 \<noteq> Malformed []"
    by (simp add: encode_token_def jwt_encode_def)
  from e v n show ?thesis by (simp add: auth_user_def)
qed

text \<open>
  Claim C9, as the code has it. On a reachable store, \<open>encode_login_token\<close> for the
  identity with id \<open>uid\<close> issues the pair and leaves a store in which a key is absent if it is a marker key
  (prefix \<open>token:\<close>) whose live value is \<open>uid:\<close> followed by anything, and holds what it
  held before otherwise. A marker of another subject \<open>u\<close> (value \<open>u:\<close> followed by
  anything, neither id holding a colon) is kept as it was. The code does not check
  that the drawn token ids are unused: provided the id drawn for the new session
  token has no entry in the store, the new session token passes the revocation check
  and the Session Guard admits the new pair, with the subject \<open>uid\<close>.
\<close>

theorem login_cleanup_frame:
  assumes "available redis_db"
    and "snd uuids \<noteq> []"
    and "map_of (entries redis_db) (''token:'' @ snd uuids) = None"
    and "t < (now div usec + 3600) * usec"
  shows "\<exists>at rt r'.
           encode_login_token secret redis_db user_data uuids now = Inr ((at, rt), r')
         \<and> (\<forall>k. map_of (entries r') k =
                (if startswith k ''token:''
                    \<and> (\<exists>rest. live_value redis_db now k
                                 = Some (py_str (dict_get user_data ''id'') @ '':'' @ rest))
                 then None else map_of (entries redis_db) k))
         \<and> (\<forall>k u rest x.
                CHR '':'' \<notin> set u \<and> CHR '':'' \<notin> set (py_str (dict_get user_data ''id''))
                \<and> u \<noteq> py_str (dict_get user_data ''id'')
                \<and> map_of (entries redis_db) k = Some (u @ '':'' @ rest, x)
                \<longrightarrow> map_of (entries r') k = Some (u @ '':'' @ rest, x))
         \<and> verify_refresh_token secret r' rt t = Inr ()
         \<and> (\<exists>p. auth_user secret r' (Some rt) at t = Inr p
                  \<and> dict_get p ''sub'' = dict_get user_data ''id'')"
proof -
  let ?uid = "py_str (dict_get user_data ''id'')"
  let ?at = "encode_token secret user_data ''access_token'' (fst uuids) now"
  let ?rt = "encode_token secret user_data ''refresh_token'' (snd uuids) now"
  from cleanup_effect [OF assms(1), of secret user_data uuids now] obtain r' where
    enc: "encode_login_token secret redis_db user_data uuids now = Inr ((?at, ?rt), r')"
    and av: "available r'"
    and fr: "\<forall>k. map_of (entries r') k =
                (if startswith k ''token:''
                    \<and> (\<exists>rest. live_value redis_db now k = Some (?uid @ '':'' @ rest))
                 then None else map_of (entries redis_db) k)"
    by blast
  have other: "\<forall>k u rest x.
                CHR '':'' \<notin> set u \<and> CHR '':'' \<notin> set ?uid \<and> u \<noteq> ?uid
                \<and> map_of (entries redis_db) k = Some (u @ '':'' @ rest, x)
                \<longrightarrow> map_of (entries r') k = Some (u @ '':'' @ rest, x)"
  proof (intro allI impI)
    fix k u rest x
    assume h: "CHR '':'' \<notin> set u \<and> CHR '':'' \<notin> set ?uid \<and> u \<noteq> ?uid
                \<and> map_of (entries redis_db) k = Some (u @ '':'' @ rest, x)"
    have "\<not> (\<exists>rest'. live_value redis_db now k = Some (?uid @ '':'' @ rest'))"
    proof
      assume "\<exists>rest'. live_value redis_db now k = Some (?uid @ '':'' @ rest')"
      then obtain rest' where "live_value redis_db now k = Some (?uid @ '':'' @ rest')" by blast
      from live_value_Some_entry [OF this] h have "u @ '':'' @ rest = ?uid @ '':'' @ rest'"
        by auto
      from colon_free_prefix [OF _ _ this] h show False by blast
    qed
    with fr h show "map_of (entries r') k = Some (u @ '':'' @ rest, x)" by simp
  qed
  have fresh: "live_value r' t (''token:'' @ snd uuids) = None"
    using fr assms(3) by (simp add: live_value_def)
  have bound: "t < (now div usec + 2592000) * usec"
    using assms(4) by (simp add: usec_def)
  have v: "verify_refresh_token secret r' ?rt t = Inr ()"
    using assms(2) bound av fresh
    by (simp add: verify_refresh_token_def decode_refresh_token_def jwt_decode_def
        encode_token_def jwt_encode_def dict_get_def redis_get_def Let_def)
  have ne: "?rt \<noteq> Malformed []"
    by (simp add: encode_token_def jwt_encode_def)
  have a: "\<exists>p. decode_access_token secret ?at t = Inr p
                  \<and> dict_get p ''sub'' = dict_get user_data ''id''"
    using assms(4)
    by (simp add: encode_token_def jwt_encode_def decode_access_token_def jwt_decode_def dict_get_def)
  have au: "\<exists>p. auth_user secret r' (Some ?rt) ?at t = Inr p
                  \<and> dict_get p ''sub'' = dict_get user_data ''id''"
    using v ne a by (simp add: auth_user_def)
  from enc fr other v au show ?thesis by blast
qed

theorem login_cleanup_frame_witness:
  "available two_markers \<and> snd (''ac2'', ''5e5520'') \<noteq> []
   \<and> map_of (entries two_markers) (''token:'' @ snd (''ac2'', ''5e5520'')) = None
   \<and> 2000000 < (2000000 div usec + 3600) * usec
   \<and> (\<exists>at rt r'.
         encode_login_token ''k'' two_markers alice (''ac2'', ''5e5520'') 2000000 = Inr ((at, rt), r')
       \<and> map_of (entries r') ''token:5e5510'' = None
       \<and> map_of (entries r') ''token:b0b510''
            = Some (''b0b000000000000000000002:True'', 2591000000000)
       \<and> verify_refresh_token ''k'' r' rt 2000000 = Inr ()
       \<and> (\<exists>p. auth_user ''k'' r' (Some rt) at 2000000 = Inr p \<and> dict_get p ''sub'' = JStr alice_id))"
proof -
  have h: "available two_markers" "snd (''ac2'', ''5e5520'') \<noteq> []"
     "map_of (entries two_markers) (''token:'' @ snd (''ac2'', ''5e5520'')) = None"
     "2000000 < (2000000 div usec + 3600) * usec"
    by (simp_all add: two_markers_def bob_marker_def usec_def)
  have i: "py_str (dict_get alice ''id'') = ''a11ce0000000000000000001''"
      "dict_get alice ''id'' = JStr alice_id"
    by (simp_all add: dict_get_def alice_def user_payload_def alice_id_def)
  from login_cleanup_frame [OF h, of "''k''" alice] obtain at rt r' where
    e: "encode_login_token ''k'' two_markers alice (''ac2'', ''5e5520'') 2000000 = Inr ((at, rt), r')"
    and fr: "\<forall>k. map_of (entries r') k =
                (if startswith k ''token:''
                    \<and> (\<exists>rest. live_value two_markers 2000000 k
                                 = Some (py_str (dict_get alice ''id'') @ '':'' @ rest))
                 then None else map_of (entries two_markers) k)"
    and ot: "\<forall>k u rest x.
                CHR '':'' \<notin> set u \<and> CHR '':'' \<notin> set (py_str (dict_get alice ''id''))
                \<and> u \<noteq> py_str (dict_get alice ''id'')
                \<and> map_of (entries two_markers) k = Some (u @ '':'' @ rest, x)
                \<longrightarrow> map_of (entries r') k = Some (u @ '':'' @ rest, x)"
    and v: "verify_refresh_token ''k'' r' rt 2000000 = Inr ()"
    and a: "\<exists>p. auth_user ''k'' r' (Some rt) at 2000000 = Inr p
                  \<and> dict_get p ''sub'' = dict_get alice ''id''"
    by blast
  have "\<exists>rest. live_value two_markers 2000000 ''token:5e5510''
                 = Some (py_str (dict_get alice ''id'') @ '':'' @ rest)"
    by (rule exI [of _ "''True''"]) (simp add: live_value_def two_markers_def i(1))
  with fr [rule_format, of "''token:5e5510''"]
  have m1: "map_of (entries r') ''token:5e5510'' = None"
    by simp
  from ot [rule_format, of "''b0b000000000000000000002''" "''token:b0b510''" "''True''" 2591000000000]
  have m2: "map_of (entries r') ''token:b0b510''
            = Some (''b0b000000000000000000002:True'', 2591000000000)"
    by (simp add: i(1) two_markers_def bob_marker_def)
  from h e m1 m2 v a show ?thesis by (auto simp: i)
qed

end
